theory Spec2Isabelle
  imports Complex_Main "HOL-Library.AList" "HOL-Library.Multiset"
begin

section \<open>Workout logs and statistics of the fitness tracker\<close>

text \<open>
  The development embeds the workout-log part of \<^verbatim>\<open>server/storage.ts\<close> (class
  \<^verbatim>\<open>MemStorage\<close>: \<^verbatim>\<open>createWorkoutLog\<close>, \<^verbatim>\<open>getWorkoutLogs\<close>, \<^verbatim>\<open>getWorkoutStats\<close>), the
  two routes of \<^verbatim>\<open>server/routes.ts\<close> that call it with validated input
  (\<^verbatim>\<open>POST /api/logs\<close>, \<^verbatim>\<open>GET /api/stats\<close>) and the insert schema of the shared schema
  file.

  Conventions of the embedding.
  \<^item> A JavaScript \<^verbatim>\<open>number\<close> that carries a quantity is a \<^typ>\<open>rat\<close>: arithmetic is
    exact, the rounding of IEEE doubles is not represented. Identifiers, which come
    from a counter that starts at 1 and is only ever incremented, are \<^typ>\<open>nat\<close>.
  \<^item> A valid \<^verbatim>\<open>Date\<close> is its time value, an \<^typ>\<open>int\<close> of milliseconds since the epoch.
    The date of a stored log is always valid: it is either \<^verbatim>\<open>new Date()\<close> or a value
    the insert schema let through, and that schema admits valid dates only. A date
    that is computed (\<^verbatim>\<open>setDate\<close>) may be the Invalid Date, so the bounds of a query
    have the type \<open>Date\<close> below, which has it.
  \<^item> The clock is an argument: every \<^verbatim>\<open>new Date()\<close> of the source is a parameter of
    the function that evaluates it.
  \<^item> \<^verbatim>\<open>async\<close> functions are modelled by their results; none of them awaits
    anything but the others.
\<close>

subsection \<open>Dates\<close>

datatype Date = Valid int | Invalid

text \<open>\<^verbatim>\<open>a >= b\<close> and \<^verbatim>\<open>a <= b\<close> on dates compare the time values; a comparison with
  \<^verbatim>\<open>NaN\<close>, the time value of the Invalid Date, is false.\<close>

fun date_ge :: "int \<Rightarrow> Date \<Rightarrow> bool" where
  "date_ge d (Valid t) = (d \<ge> t)"
| "date_ge d Invalid = False"

fun date_le :: "int \<Rightarrow> Date \<Rightarrow> bool" where
  "date_le d (Valid t) = (d \<le> t)"
| "date_le d Invalid = False"

definition msPerDay :: int where
  "msPerDay = 86400000"

text \<open>\<^verbatim>\<open>TimeClip\<close> of ECMAScript: a time value beyond 8.64e15 ms from the epoch is not
  a date.\<close>

definition TimeClip :: "int \<Rightarrow> Date" where
  "TimeClip t = (if \<bar>t\<bar> > 8640000000000000 then Invalid else Valid t)"

text \<open>\<^verbatim>\<open>d.setDate(d.getDate() - days)\<close> for a date \<open>d\<close> with time value \<open>t\<close>: the day of
  the month is moved back by \<open>days\<close>, which \<^verbatim>\<open>MakeDay\<close> and \<^verbatim>\<open>MakeDate\<close> turn into
  \<open>days\<close> whole days earlier at the same time of day, and the result is clipped. The
  local time zone is taken to have a fixed offset from UTC (no daylight-saving
  transition between the two dates).\<close>

definition setDate_back :: "int \<Rightarrow> int \<Rightarrow> Date" where
  "setDate_back t days = TimeClip (t - days * msPerDay)"

subsection \<open>Records of the schema\<close>

text \<open>\<^verbatim>\<open>WorkoutLog = typeof workoutLogs.$inferSelect\<close>; the fields \<^verbatim>\<open>id\<close> and
  \<^verbatim>\<open>notes\<close> are \<open>log_id\<close> and \<open>log_notes\<close> here.\<close>

record WorkoutLog =
  log_id :: nat
  userId :: nat
  workoutId :: "rat option"
  date :: int
  completedExercises :: rat
  waterIntake :: rat
  duration :: rat
  log_notes :: "string option"

text \<open>\<^verbatim>\<open>InsertWorkoutLog = z.infer<typeof insertWorkoutLogSchema>\<close>: only \<^verbatim>\<open>userId\<close> is
  required. For an optional field \<open>None\<close> is \<^verbatim>\<open>undefined\<close>; for the two nullable ones
  \<open>Some None\<close> is \<^verbatim>\<open>null\<close>.\<close>

record InsertWorkoutLog =
  i_userId :: nat
  i_workoutId :: "rat option option"
  i_date :: "int option"
  i_completedExercises :: "rat option"
  i_waterIntake :: "rat option"
  i_duration :: "rat option"
  i_notes :: "string option option"

record WorkoutStats =
  totalWorkouts :: nat
  totalWaterIntake :: rat
  totalDuration :: rat
  averageWaterPerWorkout :: rat
  completionPercentage :: rat
  lastWorkoutDate :: "int option"

subsection \<open>The in-memory store\<close>

text \<open>The part of \<^verbatim>\<open>MemStorage\<close> that holds workout logs. A JavaScript \<^verbatim>\<open>Map\<close> keeps its
  entries in insertion order, and \<^verbatim>\<open>set\<close> on a key that is present replaces the value
  in place: an association list with \<^const>\<open>AList.update\<close>.\<close>

record MemStorage =
  workoutLogs :: "(nat \<times> WorkoutLog) list"
  currentWorkoutLogId :: nat

definition MemStorage_new :: MemStorage where
  "MemStorage_new = \<lparr>workoutLogs = [], currentWorkoutLogId = 1\<rparr>"

definition Map_values :: "('k \<times> 'v) list \<Rightarrow> 'v list" where
  "Map_values m = map snd m"

text \<open>\<^verbatim>\<open>createWorkoutLog\<close>; \<open>now\<close> is what \<^verbatim>\<open>new Date()\<close> returns, and \<open>log_in\<close> is the
  parameter \<^verbatim>\<open>log\<close>.\<close>

definition createWorkoutLog ::
  "MemStorage \<Rightarrow> int \<Rightarrow> InsertWorkoutLog \<Rightarrow> WorkoutLog \<times> MemStorage" where
  "createWorkoutLog s now log_in =
    (let ident = currentWorkoutLogId s;
         workoutLog = \<lparr>
           log_id = ident,
           userId = i_userId log_in,
           workoutId = (case i_workoutId log_in of Some w \<Rightarrow> w | None \<Rightarrow> None),
           date = (case i_date log_in of Some d \<Rightarrow> d | None \<Rightarrow> now),
           completedExercises = (case i_completedExercises log_in of Some n \<Rightarrow> n | None \<Rightarrow> 0),
           waterIntake = (case i_waterIntake log_in of Some n \<Rightarrow> n | None \<Rightarrow> 0),
           duration = (case i_duration log_in of Some n \<Rightarrow> n | None \<Rightarrow> 0),
           log_notes = (case i_notes log_in of Some t \<Rightarrow> t | None \<Rightarrow> None)\<rparr>
     in (workoutLog,
         s\<lparr>workoutLogs := AList.update ident workoutLog (workoutLogs s),
           currentWorkoutLogId := ident + 1\<rparr>))"

text \<open>\<^verbatim>\<open>Array.prototype.sort(comparefn)\<close> is stable, and the comparator used here is
  consistent (it is a difference of integers), so the result is the one stable
  arrangement in comparator order. Insertion from the right computes it: an element goes
  before the first element it does not compare greater than.\<close>

fun insort_cmp :: "('a \<Rightarrow> 'a \<Rightarrow> int) \<Rightarrow> 'a \<Rightarrow> 'a list \<Rightarrow> 'a list" where
  "insort_cmp cmp x [] = [x]"
| "insort_cmp cmp x (y # ys) =
     (if cmp x y \<le> 0 then x # y # ys else y # insort_cmp cmp x ys)"

definition Array_sort :: "('a \<Rightarrow> 'a \<Rightarrow> int) \<Rightarrow> 'a list \<Rightarrow> 'a list" where
  "Array_sort cmp xs = foldr (insort_cmp cmp) xs []"

text \<open>\<^verbatim>\<open>getWorkoutLogs\<close>. A \<^verbatim>\<open>Date\<close> object is truthy, the Invalid Date too, so a bound
  is skipped only when it is \<^verbatim>\<open>undefined\<close>.\<close>

definition getWorkoutLogs ::
  "MemStorage \<Rightarrow> nat \<Rightarrow> Date option \<Rightarrow> Date option \<Rightarrow> WorkoutLog list" where
  "getWorkoutLogs s uid startDate endDate =
    (let logs = filter (\<lambda>log. userId log = uid) (Map_values (workoutLogs s));
         logs = (case startDate of
                   Some sd \<Rightarrow> filter (\<lambda>log. date_ge (date log) sd) logs
                 | None \<Rightarrow> logs);
         logs = (case endDate of
                   Some ed \<Rightarrow> filter (\<lambda>log. date_le (date log) ed) logs
                 | None \<Rightarrow> logs)
     in Array_sort (\<lambda>a b. date b - date a) logs)"

text \<open>\<^verbatim>\<open>getWorkoutStats\<close>. The parameter \<^verbatim>\<open>days\<close> has the default 30 (\<open>None\<close> is an
  omitted argument) and is an integer, as the route passes it. The source reads the
  clock twice: \<open>now_end\<close> is the first reading, \<open>now_start\<close> the second.
  \<^verbatim>\<open>Array.prototype.reduce\<close> with an initial value is a left fold.\<close>

definition getWorkoutStats ::
  "MemStorage \<Rightarrow> int \<Rightarrow> int \<Rightarrow> nat \<Rightarrow> int option \<Rightarrow> WorkoutStats" where
  "getWorkoutStats s now_end now_start uid days_arg =
    (let days = (case days_arg of Some d \<Rightarrow> d | None \<Rightarrow> 30);
         endDate = Valid now_end;
         startDate = setDate_back now_start days;
         logs = getWorkoutLogs s uid (Some startDate) (Some endDate)
     in if length logs = 0 then
          \<lparr>totalWorkouts = 0, totalWaterIntake = 0, totalDuration = 0,
           averageWaterPerWorkout = 0, completionPercentage = 0,
           lastWorkoutDate = None\<rparr>
        else
          (let totalWorkouts = length logs;
               totalWaterIntake = foldl (\<lambda>sum log. sum + waterIntake log) 0 logs;
               totalDuration = foldl (\<lambda>sum log. sum + duration log) 0 logs;
               averageWaterPerWorkout =
                 (if totalWorkouts > 0 then totalWaterIntake / of_nat totalWorkouts else 0);
               expectedWorkouts = (days div 7) * 3;
               completionPercentage =
                 (if expectedWorkouts > 0
                  then min 100 ((of_nat totalWorkouts / of_int expectedWorkouts) * 100)
                  else 0);
               lastWorkoutDate =
                 (case logs of l # _ \<Rightarrow> Some (date l) | [] \<Rightarrow> None)
           in \<lparr>totalWorkouts = totalWorkouts, totalWaterIntake = totalWaterIntake,
               totalDuration = totalDuration,
               averageWaterPerWorkout = averageWaterPerWorkout,
               completionPercentage = completionPercentage,
               lastWorkoutDate = lastWorkoutDate\<rparr>))"

text \<open>A run of the store: the calls of \<^verbatim>\<open>createWorkoutLog\<close> made on it, in order, each
  with the clock reading it sees. No other method of the class writes \<^verbatim>\<open>workoutLogs\<close>
  or \<^verbatim>\<open>currentWorkoutLogId\<close>, so the stores that occur are the ones a run from
  \<^const>\<open>MemStorage_new\<close> ends in.\<close>

fun create_calls ::
  "MemStorage \<Rightarrow> (int \<times> InsertWorkoutLog) list \<Rightarrow> WorkoutLog list \<times> MemStorage" where
  "create_calls s [] = ([], s)"
| "create_calls s ((now, log_in) # calls) =
     (let (r, s') = createWorkoutLog s now log_in;
          (rs, s'') = create_calls s' calls
      in (r # rs, s''))"

subsection \<open>Validation with the insert schema\<close>

text \<open>A request body is a JSON object: a map from keys to JSON values.\<close>

datatype json = JNull | JBool bool | JNum rat | JStr string | JArr "json list"
  | JObj "(string \<times> json) list"

text \<open>An issue of a \<^verbatim>\<open>ZodError\<close>: its code is \<^verbatim>\<open>invalid_type\<close>, the only one these
  schemas raise, and its path is the key of the offending field.\<close>

datatype ZodIssue = invalid_type string

text \<open>The schemas that \<^verbatim>\<open>createInsertSchema\<close> derives from the column types: an
  \<^verbatim>\<open>integer\<close> column is checked with \<^verbatim>\<open>z.number()\<close>, a \<^verbatim>\<open>text\<close> column with
  \<^verbatim>\<open>z.string()\<close>, a \<^verbatim>\<open>timestamp\<close> column with \<^verbatim>\<open>z.date()\<close>, which accepts \<^verbatim>\<open>Date\<close>
  objects only, and a JSON body holds none. A parser returns \<open>None\<close> when it raises
  an issue.\<close>

fun z_number :: "json \<Rightarrow> rat option" where
  "z_number (JNum n) = Some n"
| "z_number _ = None"

fun z_string :: "json \<Rightarrow> string option" where
  "z_string (JStr t) = Some t"
| "z_string _ = None"

fun z_date :: "json \<Rightarrow> int option" where
  "z_date _ = None"

text \<open>\<^verbatim>\<open>.nullable()\<close> lets \<^verbatim>\<open>null\<close> through, \<^verbatim>\<open>.optional()\<close> lets \<^verbatim>\<open>undefined\<close> (a
  missing key) through.\<close>

definition z_nullable :: "(json \<Rightarrow> 'a option) \<Rightarrow> json \<Rightarrow> 'a option option" where
  "z_nullable p v = (if v = JNull then Some None else map_option Some (p v))"

definition z_optional :: "(json \<Rightarrow> 'a option) \<Rightarrow> json option \<Rightarrow> 'a option option" where
  "z_optional p v = (case v of None \<Rightarrow> Some None | Some j \<Rightarrow> map_option Some (p j))"

definition issue_of :: "string \<Rightarrow> 'a option \<Rightarrow> ZodIssue list" where
  "issue_of key r = (case r of None \<Rightarrow> [invalid_type key] | Some _ \<Rightarrow> [])"

text \<open>\<^verbatim>\<open>insertWorkoutLogSchema.parse({...req.body, userId})\<close>. The columns that are
  nullable are \<^verbatim>\<open>.nullable().optional()\<close> in the insert schema, the ones with a default
  are \<^verbatim>\<open>.optional()\<close>; \<^verbatim>\<open>userId\<close> is required, and is the number the route puts
  there, whatever the body holds under that key. Keys outside the schema are dropped.
  All fields are checked and every issue is reported, in the order of the schema's
  keys; \<open>Inl\<close> is the thrown \<^verbatim>\<open>ZodError\<close>.\<close>

definition insertWorkoutLogSchema_parse ::
  "(string \<rightharpoonup> json) \<Rightarrow> nat \<Rightarrow> ZodIssue list + InsertWorkoutLog" where
  "insertWorkoutLogSchema_parse body uid =
    (let r_workoutId = z_optional (z_nullable z_number) (body ''workoutId'');
         r_date = z_optional z_date (body ''date'');
         r_completedExercises = z_optional z_number (body ''completedExercises'');
         r_waterIntake = z_optional z_number (body ''waterIntake'');
         r_duration = z_optional z_number (body ''duration'');
         r_notes = z_optional (z_nullable z_string) (body ''notes'');
         issues = issue_of ''workoutId'' r_workoutId @ issue_of ''date'' r_date
                @ issue_of ''completedExercises'' r_completedExercises
                @ issue_of ''waterIntake'' r_waterIntake
                @ issue_of ''duration'' r_duration @ issue_of ''notes'' r_notes
     in case (r_workoutId, r_date, r_completedExercises, r_waterIntake, r_duration, r_notes) of
          (Some workoutId', Some date', Some completedExercises', Some waterIntake',
           Some duration', Some notes') \<Rightarrow>
            Inr \<lparr>i_userId = uid,
                 i_workoutId = workoutId',
                 i_date = date',
                 i_completedExercises = completedExercises',
                 i_waterIntake = waterIntake',
                 i_duration = duration',
                 i_notes = notes'\<rparr>
        | _ \<Rightarrow> Inl issues)"

subsection \<open>The routes\<close>

datatype Response =
    Status401
  | Status201 WorkoutLog
  | Status400 "ZodIssue list"
  | Status200 WorkoutStats

text \<open>\<^verbatim>\<open>POST /api/logs\<close>. The session's user is \<open>None\<close> when the request is not
  authenticated. \<^verbatim>\<open>createWorkoutLog\<close> does not throw, so the status 500 of the
  \<^verbatim>\<open>catch\<close> block has no branch here.\<close>

definition post_api_logs ::
  "MemStorage \<Rightarrow> int \<Rightarrow> nat option \<Rightarrow> (string \<rightharpoonup> json) \<Rightarrow> Response \<times> MemStorage" where
  "post_api_logs s now user body =
    (case user of
       None \<Rightarrow> (Status401, s)
     | Some uid \<Rightarrow>
        (case insertWorkoutLogSchema_parse body uid of
           Inl errors \<Rightarrow> (Status400 errors, s)
         | Inr validatedData \<Rightarrow>
             (let (workoutLog, s') = createWorkoutLog s now validatedData
              in (Status201 workoutLog, s'))))"

text \<open>\<^verbatim>\<open>parseInt(string)\<close> with no radix, after ECMAScript: leading white space is
  skipped, a sign is read, \<^verbatim>\<open>0x\<close> or \<^verbatim>\<open>0X\<close> selects radix 16, and the longest run
  of digits of the radix is the number; \<open>None\<close> is \<^verbatim>\<open>NaN\<close>, returned when there is no
  digit. A string is a list of code units below 256.\<close>

definition isWhiteSpace :: "char \<Rightarrow> bool" where
  "isWhiteSpace c = (of_char c \<in> {9, 10, 11, 12, 13, 32, 160 :: nat})"

definition digitValue :: "char \<Rightarrow> nat option" where
  "digitValue c =
    (let n = of_char c :: nat
     in if 48 \<le> n \<and> n \<le> 57 then Some (n - 48)
        else if 97 \<le> n \<and> n \<le> 122 then Some (n - 87)
        else if 65 \<le> n \<and> n \<le> 90 then Some (n - 55)
        else None)"

definition isRadixDigit :: "nat \<Rightarrow> char \<Rightarrow> bool" where
  "isRadixDigit R c = (case digitValue c of Some v \<Rightarrow> v < R | None \<Rightarrow> False)"

definition mathInt :: "nat \<Rightarrow> string \<Rightarrow> nat" where
  "mathInt R Z = foldl (\<lambda>acc c. acc * R + (case digitValue c of Some v \<Rightarrow> v | None \<Rightarrow> 0)) 0 Z"

definition parseInt :: "string \<Rightarrow> int option" where
  "parseInt inputString =
    (let S = dropWhile isWhiteSpace inputString;
         sign = (if S \<noteq> [] \<and> hd S = CHR ''-'' then - 1 else 1 :: int);
         S = (if S \<noteq> [] \<and> (hd S = CHR ''+'' \<or> hd S = CHR ''-'') then tl S else S);
         hex = (take 2 S = ''0x'' \<or> take 2 S = ''0X'');
         R = (if hex then 16 else 10);
         S = (if hex then drop 2 S else S);
         Z = takeWhile (isRadixDigit R) S
     in if Z = [] then None else Some (sign * int (mathInt R Z)))"

text \<open>\<^verbatim>\<open>GET /api/stats\<close>. The query parameter \<^verbatim>\<open>days\<close> is a string when present (a
  repeated parameter, which the query parser turns into an array, is not represented);
  the empty string is falsy.\<close>

definition get_api_stats ::
  "MemStorage \<Rightarrow> int \<Rightarrow> int \<Rightarrow> nat option \<Rightarrow> string option \<Rightarrow> Response" where
  "get_api_stats s now_end now_start user query_days =
    (case user of
       None \<Rightarrow> Status401
     | Some uid \<Rightarrow>
        (let days = (case query_days of
                       None \<Rightarrow> 30
                     | Some q \<Rightarrow>
                         if q = [] then 30
                         else (case parseInt q of
                                 None \<Rightarrow> 30
                               | Some d \<Rightarrow> if d \<le> 0 then 30 else d))
         in Status200 (getWorkoutStats s now_end now_start uid (Some days))))"

subsection \<open>Example data\<close>

text \<open>An input for \<^verbatim>\<open>createWorkoutLog\<close> with a user, a date and a water intake.\<close>

definition example_input :: "nat \<Rightarrow> int \<Rightarrow> rat \<Rightarrow> InsertWorkoutLog" where
  "example_input uid d w =
     \<lparr>i_userId = uid, i_workoutId = None, i_date = Some d, i_completedExercises = None,
      i_waterIntake = Some w, i_duration = Some 600, i_notes = None\<rparr>"

text \<open>Scenario A: the clock reads day 30; user 1 has five logs on days 1 to 5 with water
  intakes 100 to 500, and one log before day 0; user 2 has one log.\<close>

definition scenarioA :: MemStorage where
  "scenarioA = snd (create_calls MemStorage_new
     [(0, example_input 1 (3 * msPerDay) 300),
      (0, example_input 1 (1 * msPerDay) 100),
      (0, example_input 2 (2 * msPerDay) 999),
      (0, example_input 1 (5 * msPerDay) 500),
      (0, example_input 1 (- 1 * msPerDay) 50),
      (0, example_input 1 (2 * msPerDay) 200),
      (0, example_input 1 (4 * msPerDay) 400)])"

text \<open>A store with a single log of user 1, dated at the epoch.\<close>

definition oneLog :: MemStorage where
  "oneLog = snd (createWorkoutLog MemStorage_new 0 (example_input 1 0 250))"

section \<open>Properties of the log store\<close>

subsection \<open>Sorting and folding\<close>

lemma insort_cmp_date:
  "insort_cmp (\<lambda>a b. date b - date a) x xs = insort_key (\<lambda>l. - date l) x xs"
  by (induction xs) auto

lemma Array_sort_date:
  "Array_sort (\<lambda>a b. date b - date a) xs = sort_key (\<lambda>l. - date l) xs"
  by (induction xs) (simp_all add: Array_sort_def sort_key_def insort_cmp_date)

lemma getWorkoutLogs_filter:
  "getWorkoutLogs s uid sd ed =
     sort_key (\<lambda>l. - date l)
       (filter (\<lambda>l. userId l = uid
                 \<and> (case sd of None \<Rightarrow> True | Some b \<Rightarrow> date_ge (date l) b)
                 \<and> (case ed of None \<Rightarrow> True | Some b \<Rightarrow> date_le (date l) b))
          (Map_values (workoutLogs s)))"
  by (cases sd; cases ed)
     (simp_all add: getWorkoutLogs_def Array_sort_date conj_commute conj_left_commute
        cong: conj_cong)

lemma getWorkoutLogs_window:
  "getWorkoutLogs s uid (Some sd) (Some ed) =
     sort_key (\<lambda>l. - date l)
       (filter (\<lambda>l. userId l = uid \<and> date_ge (date l) sd \<and> date_le (date l) ed)
          (Map_values (workoutLogs s)))"
  by (simp add: getWorkoutLogs_filter)

lemma foldl_add_sum_list:
  "foldl (\<lambda>acc l. acc + f l) a xs = a + sum_list (map f xs)"
  for a :: rat
  by (induction xs arbitrary: a) (simp_all add: add.assoc)


lemma sorted_desc_hd_Max:
  "xs \<noteq> [] \<Longrightarrow> sorted (map (\<lambda>l. - date l) xs) \<Longrightarrow> date (hd xs) = Max (date ` set xs)"
  by (cases xs) (auto intro!: Max_eqI[symmetric])

lemma sort_key_Nil_iff: "sort_key f xs = [] \<longleftrightarrow> xs = []"
  by (metis length_sort length_0_conv)

text \<open>The statistics as a function of the listed logs.\<close>

lemma getWorkoutStats_window:
  assumes "logs = getWorkoutLogs s uid (Some (setDate_back now_start days)) (Some (Valid now_end))"
  shows "getWorkoutStats s now_end now_start uid (Some days) =
    (if logs = [] then
       \<lparr>totalWorkouts = 0, totalWaterIntake = 0, totalDuration = 0,
        averageWaterPerWorkout = 0, completionPercentage = 0, lastWorkoutDate = None\<rparr>
     else
       \<lparr>totalWorkouts = length logs,
        totalWaterIntake = sum_list (map waterIntake logs),
        totalDuration = sum_list (map duration logs),
        averageWaterPerWorkout = sum_list (map waterIntake logs) / of_nat (length logs),
        completionPercentage =
          (if (days div 7) * 3 > 0
           then min 100 ((of_nat (length logs) / of_int ((days div 7) * 3)) * 100) else 0),
        lastWorkoutDate = Some (date (hd logs))\<rparr>)"
proof (cases logs)
  case Nil
  then show ?thesis using assms by (simp add: getWorkoutStats_def)
next
  case (Cons l ls)
  then have eq: "getWorkoutLogs s uid (Some (setDate_back now_start days)) (Some (Valid now_end))
      = l # ls"
    using assms by simp
  show ?thesis
    by (simp add: getWorkoutStats_def eq Cons foldl_add_sum_list Let_def)
qed

subsection \<open>Runs of the store\<close>

lemma createWorkoutLog_id:
  "createWorkoutLog s now log_in = (r, s') \<Longrightarrow>
     log_id r = currentWorkoutLogId s \<and> currentWorkoutLogId s' = Suc (currentWorkoutLogId s)
     \<and> workoutLogs s' = AList.update (log_id r) r (workoutLogs s)"
  by (auto simp: createWorkoutLog_def Let_def)

lemma update_fresh:
  "k \<notin> fst ` set al \<Longrightarrow> AList.update k v al = al @ [(k, v)]"
  by (induction al) auto

text \<open>Along a run the counter stays above every key of the map, so each call appends.\<close>

lemma create_calls_run:
  "create_calls s calls = (rs, s') \<Longrightarrow>
   \<forall>k\<in>fst ` set (workoutLogs s). k < currentWorkoutLogId s \<Longrightarrow>
     (\<forall>p\<in>set rs. currentWorkoutLogId s \<le> log_id p \<and> log_id p < currentWorkoutLogId s')
   \<and> sorted_wrt (<) (map log_id rs)
   \<and> currentWorkoutLogId s \<le> currentWorkoutLogId s'
   \<and> workoutLogs s' = workoutLogs s @ map (\<lambda>r. (log_id r, r)) rs"
proof (induction calls arbitrary: s rs s')
  case Nil
  then show ?case by simp
next
  case (Cons c calls)
  obtain now log_in where c: "c = (now, log_in)" by (cases c)
  obtain r s1 where r: "createWorkoutLog s now log_in = (r, s1)"
    by (cases "createWorkoutLog s now log_in")
  obtain rs1 s2 where rs1: "create_calls s1 calls = (rs1, s2)"
    by (cases "create_calls s1 calls")
  from Cons.prems(1) c r rs1 have eq: "rs = r # rs1" "s' = s2" by simp_all
  from createWorkoutLog_id[OF r] have id: "log_id r = currentWorkoutLogId s"
    and cur: "currentWorkoutLogId s1 = Suc (currentWorkoutLogId s)"
    and upd: "workoutLogs s1 = AList.update (log_id r) r (workoutLogs s)" by simp_all
  have fresh: "log_id r \<notin> fst ` set (workoutLogs s)" using Cons.prems(2) id by auto
  have logs1: "workoutLogs s1 = workoutLogs s @ [(log_id r, r)]"
    using upd update_fresh[OF fresh] by simp
  have inv1: "\<forall>k\<in>fst ` set (workoutLogs s1). k < currentWorkoutLogId s1"
    using Cons.prems(2) by (auto simp: logs1 cur id)
  from Cons.IH[OF rs1 inv1] show ?case
    by (auto simp: eq id cur logs1)
qed

lemma create_calls_new:
  assumes "create_calls MemStorage_new calls = (rs, s)"
  shows "\<forall>p\<in>set rs. log_id p < currentWorkoutLogId s"
    and "sorted_wrt (<) (map log_id rs)"
    and "workoutLogs s = map (\<lambda>r. (log_id r, r)) rs"
  using create_calls_run[OF assms] by (simp_all add: MemStorage_new_def)

lemma distinct_stored:
  assumes "create_calls MemStorage_new calls = (rs, s)"
  shows "distinct (Map_values (workoutLogs s))"
proof -
  note run = create_calls_new[OF assms]
  have "distinct (map log_id rs)" using run(2) by (simp add: strict_sorted_iff)
  then have "distinct rs" by (simp add: distinct_map)
  then show ?thesis by (simp add: Map_values_def run(3) comp_def)
qed

section \<open>The statistics\<close>









text \<open>
  Claim C3. For every store, user and bounds, given or omitted, the list that
  \<^verbatim>\<open>getWorkoutLogs\<close> returns is sorted by date, latest first. Hence, when the window of
  \<^verbatim>\<open>getWorkoutStats\<close> holds at least one log, the \<open>lastWorkoutDate\<close> it returns, the date
  of the first listed log, is the greatest date among the logs in the window.
\<close>

theorem getWorkoutLogs_sorted_lastWorkoutDate:
  fixes s now_end now_start uid days
  defines "W \<equiv> filter (\<lambda>l. userId l = uid \<and> date_ge (date l) (setDate_back now_start days)
                          \<and> date_le (date l) (Valid now_end)) (Map_values (workoutLogs s))"
  shows "sorted_wrt (\<lambda>a b. date a \<ge> date b) (getWorkoutLogs s uid sd ed)
       \<and> (W \<noteq> [] \<longrightarrow>
            lastWorkoutDate (getWorkoutStats s now_end now_start uid (Some days))
              = Some (Max (date ` set W)))"
proof -
  have "sorted (map (\<lambda>l. - date l) (getWorkoutLogs s uid sd ed))"
    by (simp add: getWorkoutLogs_filter)
  then have a: "sorted_wrt (\<lambda>a b. date a \<ge> date b) (getWorkoutLogs s uid sd ed)"
    by (simp add: sorted_map)
  define logs where
    "logs = getWorkoutLogs s uid (Some (setDate_back now_start days)) (Some (Valid now_end))"
  have logs: "logs = sort_key (\<lambda>l. - date l) W"
    unfolding logs_def W_def by (rule getWorkoutLogs_window)
  have b: "lastWorkoutDate (getWorkoutStats s now_end now_start uid (Some days))
              = Some (Max (date ` set W))" if "W \<noteq> []"
  proof -
    have ne: "logs \<noteq> []" using that by (simp add: logs sort_key_Nil_iff)
    have "sorted (map (\<lambda>l. - date l) logs)" by (simp add: logs)
    then have "date (hd logs) = Max (date ` set logs)"
      using ne by (simp add: sorted_desc_hd_Max)
    also have "set logs = set W" by (simp add: logs)
    finally show ?thesis by (simp add: getWorkoutStats_window[OF logs_def] ne)
  qed
  show ?thesis using a b by blast
qed

theorem getWorkoutLogs_sorted_lastWorkoutDate_witness:
  "sorted_wrt (\<lambda>a b. date a \<ge> date b) (getWorkoutLogs scenarioA 1 None None)
   \<and> map date (getWorkoutLogs scenarioA 1 None None)
       = [432000000, 345600000, 259200000, 172800000, 86400000, - 86400000]
   \<and> filter (\<lambda>l. userId l = 1 \<and> date_ge (date l) (setDate_back (30 * msPerDay) 30)
              \<and> date_le (date l) (Valid (30 * msPerDay))) (Map_values (workoutLogs scenarioA)) \<noteq> []
   \<and> lastWorkoutDate (getWorkoutStats scenarioA (30 * msPerDay) (30 * msPerDay) 1 (Some 30))
       = Some 432000000"
proof -
  let ?W = "filter (\<lambda>l. userId l = 1 \<and> date_ge (date l) (setDate_back (30 * msPerDay) 30)
              \<and> date_le (date l) (Valid (30 * msPerDay))) (Map_values (workoutLogs scenarioA))"
  let ?r = "getWorkoutStats scenarioA (30 * msPerDay) (30 * msPerDay) 1 (Some 30)"
  have dates: "map date ?W = [259200000, 86400000, 432000000, 172800000, 345600000]"
    by code_simp
  have ne: "?W \<noteq> []" using dates by auto
  have "date ` set ?W = set (map date ?W)" by simp
  also have "\<dots> = {259200000, 86400000, 432000000, 172800000, 345600000}"
    by (simp only: dates) simp
  finally have mx: "Max (date ` set ?W) = 432000000" by simp
  have listed: "map date (getWorkoutLogs scenarioA 1 None None)
       = [432000000, 345600000, 259200000, 172800000, 86400000, - 86400000]"
    by code_simp
  note inst = getWorkoutLogs_sorted_lastWorkoutDate
    [of scenarioA 1 None None "30 * msPerDay" 30 "30 * msPerDay"]
  from inst have a: "sorted_wrt (\<lambda>a b. date a \<ge> date b) (getWorkoutLogs scenarioA 1 None None)"
    by blast
  from inst ne have "lastWorkoutDate ?r = Some (Max (date ` set ?W))" by blast
  then have b: "lastWorkoutDate ?r = Some 432000000" by (simp only: mx)
  from a listed ne b show ?thesis by blast
qed

text \<open>
  Claim C4. For every store, user and optional bounds, \<^verbatim>\<open>getWorkoutLogs\<close> returns
  exactly the stored logs of the user whose date is at or after the start bound and at or
  before the end bound, an omitted bound excluding nothing: as multisets, the result and
  the stored logs that meet the condition are equal, so each such entry of the store
  appears once and nothing else appears. The result is the empty list exactly when no
  stored log meets the condition, and in a store built by \<^verbatim>\<open>createWorkoutLog\<close> no log is
  listed twice. The function is total: it has no error result.
\<close>

theorem getWorkoutLogs_exact:
  fixes s uid sd ed
  defines "P \<equiv> \<lambda>l. userId l = uid
      \<and> (case sd of None \<Rightarrow> True | Some Invalid \<Rightarrow> False | Some (Valid a) \<Rightarrow> a \<le> date l)
      \<and> (case ed of None \<Rightarrow> True | Some Invalid \<Rightarrow> False | Some (Valid b) \<Rightarrow> date l \<le> b)"
  shows "mset (getWorkoutLogs s uid sd ed) = filter_mset P (mset (Map_values (workoutLogs s)))
       \<and> set (getWorkoutLogs s uid sd ed) = {l \<in> set (Map_values (workoutLogs s)). P l}
       \<and> ((getWorkoutLogs s uid sd ed = []) = (filter P (Map_values (workoutLogs s)) = []))
       \<and> distinct (getWorkoutLogs (snd (create_calls MemStorage_new calls)) uid sd ed)"
proof -
  have ge: "date_ge d x = (case x of Invalid \<Rightarrow> False | Valid a \<Rightarrow> a \<le> d)" for d x
    by (cases x) simp_all
  have le: "date_le d x = (case x of Invalid \<Rightarrow> False | Valid a \<Rightarrow> d \<le> a)" for d x
    by (cases x) simp_all
  have eq: "getWorkoutLogs s uid sd ed = sort_key (\<lambda>l. - date l) (filter P (Map_values (workoutLogs s)))"
    for s
    unfolding getWorkoutLogs_filter P_def
    by (cases sd; cases ed) (simp_all add: ge le)
  have a: "mset (getWorkoutLogs s uid sd ed) = filter_mset P (mset (Map_values (workoutLogs s)))"
    by (simp add: eq)
  have b: "set (getWorkoutLogs s uid sd ed) = {l \<in> set (Map_values (workoutLogs s)). P l}"
    by (simp add: eq)
  have c: "(getWorkoutLogs s uid sd ed = []) = (filter P (Map_values (workoutLogs s)) = [])"
    by (simp only: eq sort_key_Nil_iff)
  obtain rs s1 where run: "create_calls MemStorage_new calls = (rs, s1)"
    by (cases "create_calls MemStorage_new calls")
  have "distinct (Map_values (workoutLogs s1))" by (rule distinct_stored[OF run])
  then have d: "distinct (getWorkoutLogs (snd (create_calls MemStorage_new calls)) uid sd ed)"
    by (simp add: eq run)
  show ?thesis using a b c d by blast
qed

theorem getWorkoutLogs_exact_witness:
  "map log_id (getWorkoutLogs scenarioA 1 (Some (Valid (2 * msPerDay))) (Some (Valid (4 * msPerDay))))
     = [7, 1, 6]
   \<and> mset (getWorkoutLogs scenarioA 1 (Some (Valid (2 * msPerDay))) (Some (Valid (4 * msPerDay)))) =
       filter_mset (\<lambda>l. userId l = 1 \<and> 2 * msPerDay \<le> date l \<and> date l \<le> 4 * msPerDay)
         (mset (Map_values (workoutLogs scenarioA)))
   \<and> getWorkoutLogs scenarioA 3 None None = []
   \<and> getWorkoutLogs scenarioA 1 (Some Invalid) None = []"
proof -
  have a: "map log_id (getWorkoutLogs scenarioA 1 (Some (Valid (2 * msPerDay)))
      (Some (Valid (4 * msPerDay)))) = [7, 1, 6]"
    by code_simp
  have b: "filter (\<lambda>l. userId l = 3) (Map_values (workoutLogs scenarioA)) = []"
    by code_simp
  from getWorkoutLogs_exact[of scenarioA 1 "Some (Valid (2 * msPerDay))" "Some (Valid (4 * msPerDay))"]
  have c: "mset (getWorkoutLogs scenarioA 1 (Some (Valid (2 * msPerDay))) (Some (Valid (4 * msPerDay)))) =
       filter_mset (\<lambda>l. userId l = 1 \<and> 2 * msPerDay \<le> date l \<and> date l \<le> 4 * msPerDay)
         (mset (Map_values (workoutLogs scenarioA)))"
    by simp
  from getWorkoutLogs_exact[of scenarioA 3 None None] b
  have d: "getWorkoutLogs scenarioA 3 None None = []" by simp
  from getWorkoutLogs_exact[of scenarioA 1 "Some Invalid" None]
  have e: "getWorkoutLogs scenarioA 1 (Some Invalid) None = []" by simp
  from a c d e show ?thesis by blast
qed

text \<open>
  Claim C5. When no log of the user lies in the window, \<^verbatim>\<open>getWorkoutStats\<close> returns
  zero for the five numbers and no \<open>lastWorkoutDate\<close>. This holds for every \<open>days\<close>,
  positive or not.
\<close>

theorem getWorkoutStats_empty:
  fixes s now_end now_start uid days
  defines "W \<equiv> filter (\<lambda>l. userId l = uid \<and> date_ge (date l) (setDate_back now_start days)
                          \<and> date_le (date l) (Valid now_end)) (Map_values (workoutLogs s))"
  assumes "W = []"
  shows "getWorkoutStats s now_end now_start uid (Some days) =
     \<lparr>totalWorkouts = 0, totalWaterIntake = 0, totalDuration = 0,
      averageWaterPerWorkout = 0, completionPercentage = 0, lastWorkoutDate = None\<rparr>"
proof -
  have "getWorkoutLogs s uid (Some (setDate_back now_start days)) (Some (Valid now_end)) = []"
    using assms by (simp add: getWorkoutLogs_window)
  then show ?thesis by (simp add: getWorkoutStats_window[OF refl])
qed

theorem getWorkoutStats_empty_witness:
  "filter (\<lambda>l. userId l = 1 \<and> date_ge (date l) (setDate_back (40 * msPerDay) 30)
              \<and> date_le (date l) (Valid (40 * msPerDay))) (Map_values (workoutLogs scenarioA)) = []
   \<and> getWorkoutStats scenarioA (40 * msPerDay) (40 * msPerDay) 1 (Some 30) =
     \<lparr>totalWorkouts = 0, totalWaterIntake = 0, totalDuration = 0,
      averageWaterPerWorkout = 0, completionPercentage = 0, lastWorkoutDate = None\<rparr>"
proof -
  have e: "filter (\<lambda>l. userId l = 1 \<and> date_ge (date l) (setDate_back (40 * msPerDay) 30)
              \<and> date_le (date l) (Valid (40 * msPerDay))) (Map_values (workoutLogs scenarioA)) = []"
    by code_simp
  from e getWorkoutStats_empty[OF e] show ?thesis by blast
qed


section \<open>Creating logs\<close>

text \<open>
  Claim C6. After any run of \<^verbatim>\<open>createWorkoutLog\<close> calls on a new store, a further call
  assigns an identifier strictly greater than the identifier of every log created
  before, so the identifiers of all created logs are pairwise distinct. The record it
  returns has the caller's \<open>userId\<close>; its \<open>workoutId\<close> and \<open>notes\<close> are the caller's, and
  absent when the caller gave none; its \<open>date\<close> is the caller's, and the clock reading
  when the caller gave none; its \<open>completedExercises\<close>, \<open>waterIntake\<close> and \<open>duration\<close>
  are the caller's, and 0 when the caller gave none. The record is stored under its
  identifier.
\<close>

theorem createWorkoutLog_record:
  assumes "create_calls MemStorage_new calls = (prev, s)"
      and "createWorkoutLog s now log_in = (r, s')"
  shows "(\<forall>p\<in>set prev. log_id p < log_id r)
       \<and> distinct (map log_id (prev @ [r]))
       \<and> userId r = i_userId log_in
       \<and> workoutId r = (case i_workoutId log_in of None \<Rightarrow> None | Some w \<Rightarrow> w)
       \<and> date r = (case i_date log_in of None \<Rightarrow> now | Some d \<Rightarrow> d)
       \<and> completedExercises r = (case i_completedExercises log_in of None \<Rightarrow> 0 | Some n \<Rightarrow> n)
       \<and> waterIntake r = (case i_waterIntake log_in of None \<Rightarrow> 0 | Some n \<Rightarrow> n)
       \<and> duration r = (case i_duration log_in of None \<Rightarrow> 0 | Some n \<Rightarrow> n)
       \<and> log_notes r = (case i_notes log_in of None \<Rightarrow> None | Some t \<Rightarrow> t)
       \<and> map_of (workoutLogs s') (log_id r) = Some r"
proof -
  note run = create_calls_new[OF assms(1)]
  from createWorkoutLog_id[OF assms(2)] have id: "log_id r = currentWorkoutLogId s"
    and upd: "workoutLogs s' = AList.update (log_id r) r (workoutLogs s)"
    by simp_all
  have less: "\<forall>p\<in>set prev. log_id p < log_id r" using run(1) by (simp add: id)
  have "distinct (map log_id prev)"
    using run(2) by (simp add: strict_sorted_iff)
  then have dist: "distinct (map log_id (prev @ [r]))"
    using less by auto
  have fields: "userId r = i_userId log_in
       \<and> workoutId r = (case i_workoutId log_in of None \<Rightarrow> None | Some w \<Rightarrow> w)
       \<and> date r = (case i_date log_in of None \<Rightarrow> now | Some d \<Rightarrow> d)
       \<and> completedExercises r = (case i_completedExercises log_in of None \<Rightarrow> 0 | Some n \<Rightarrow> n)
       \<and> waterIntake r = (case i_waterIntake log_in of None \<Rightarrow> 0 | Some n \<Rightarrow> n)
       \<and> duration r = (case i_duration log_in of None \<Rightarrow> 0 | Some n \<Rightarrow> n)
       \<and> log_notes r = (case i_notes log_in of None \<Rightarrow> None | Some t \<Rightarrow> t)"
    using assms(2) by (auto simp: createWorkoutLog_def Let_def split: option.splits)
  have stored: "map_of (workoutLogs s') (log_id r) = Some r"
    by (simp add: upd AList.update_conv')
  show ?thesis using less dist fields stored by blast
qed

theorem createWorkoutLog_record_witness:
  "map log_id (fst (create_calls MemStorage_new
      [(10, example_input 1 5 100), (20, example_input 2 6 200)])) = [1, 2]
   \<and> fst (createWorkoutLog
        (snd (create_calls MemStorage_new
           [(10, example_input 1 5 100), (20, example_input 2 6 200)]))
        30
        \<lparr>i_userId = 7, i_workoutId = None, i_date = None, i_completedExercises = None,
         i_waterIntake = Some 250, i_duration = None, i_notes = Some (Some ''legs'')\<rparr>)
     = \<lparr>log_id = 3, userId = 7, workoutId = None, date = 30, completedExercises = 0,
        waterIntake = 250, duration = 0, log_notes = Some ''legs''\<rparr>
   \<and> map_of (workoutLogs (snd (createWorkoutLog
        (snd (create_calls MemStorage_new
           [(10, example_input 1 5 100), (20, example_input 2 6 200)]))
        30
        \<lparr>i_userId = 7, i_workoutId = None, i_date = None, i_completedExercises = None,
         i_waterIntake = Some 250, i_duration = None, i_notes = Some (Some ''legs'')\<rparr>))) 3
     = Some \<lparr>log_id = 3, userId = 7, workoutId = None, date = 30, completedExercises = 0,
        waterIntake = 250, duration = 0, log_notes = Some ''legs''\<rparr>"
proof -
  let ?calls = "[(10, example_input 1 5 100), (20, example_input 2 6 200)]"
  let ?inp = "\<lparr>i_userId = 7, i_workoutId = None, i_date = None, i_completedExercises = None,
         i_waterIntake = Some 250, i_duration = None, i_notes = Some (Some ''legs'')\<rparr>"
  let ?s = "snd (create_calls MemStorage_new ?calls)"
  let ?r = "\<lparr>log_id = 3, userId = 7, workoutId = None, date = 30, completedExercises = 0,
        waterIntake = 250, duration = 0, log_notes = Some ''legs''\<rparr>"
  have ids: "map log_id (fst (create_calls MemStorage_new ?calls)) = [1, 2]" by code_simp
  have r: "fst (createWorkoutLog ?s 30 ?inp) = ?r" by code_simp
  have h1: "create_calls MemStorage_new ?calls = (fst (create_calls MemStorage_new ?calls), ?s)"
    by simp
  have h2: "createWorkoutLog ?s 30 ?inp = (?r, snd (createWorkoutLog ?s 30 ?inp))"
    by (simp flip: r)
  from createWorkoutLog_record[OF h1 h2]
  have "map_of (workoutLogs (snd (createWorkoutLog ?s 30 ?inp))) (log_id ?r) = Some ?r"
    by blast
  then have st: "map_of (workoutLogs (snd (createWorkoutLog ?s 30 ?inp))) 3 = Some ?r"
    by simp
  from ids r st show ?thesis by blast
qed

text \<open>
  Claim C10. After any run of \<^verbatim>\<open>createWorkoutLog\<close> calls on a new store, a further call
  stores its record under an identifier that was not a key of the map, appends that one
  entry to the map and changes nothing else: under every key present before the call
  the map holds the same record after it.
\<close>

theorem createWorkoutLog_frame:
  assumes "create_calls MemStorage_new calls = (prev, s)"
      and "createWorkoutLog s now log_in = (r, s')"
  shows "log_id r \<notin> fst ` set (workoutLogs s)
       \<and> workoutLogs s' = workoutLogs s @ [(log_id r, r)]
       \<and> (\<forall>k\<in>fst ` set (workoutLogs s). map_of (workoutLogs s') k = map_of (workoutLogs s) k)"
proof -
  note run = create_calls_new[OF assms(1)]
  from createWorkoutLog_id[OF assms(2)] have id: "log_id r = currentWorkoutLogId s"
    and upd: "workoutLogs s' = AList.update (log_id r) r (workoutLogs s)"
    by simp_all
  have keys: "fst ` set (workoutLogs s) = log_id ` set prev"
    by (simp add: run(3) image_image)
  have fresh: "log_id r \<notin> fst ` set (workoutLogs s)"
    using run(1) by (auto simp: keys id)
  have app: "workoutLogs s' = workoutLogs s @ [(log_id r, r)]"
    using upd update_fresh[OF fresh] by simp
  have frame: "map_of (workoutLogs s') k = map_of (workoutLogs s) k"
    if "k \<in> fst ` set (workoutLogs s)" for k
  proof -
    from that fresh have "k \<noteq> log_id r" by blast
    then show ?thesis by (simp add: upd AList.update_conv')
  qed
  show ?thesis using fresh app frame by blast
qed

theorem createWorkoutLog_frame_witness:
  "map fst (workoutLogs (snd (create_calls MemStorage_new
      [(10, example_input 1 5 100), (20, example_input 2 6 200)]))) = [1, 2]
   \<and> map fst (workoutLogs (snd (createWorkoutLog
        (snd (create_calls MemStorage_new
           [(10, example_input 1 5 100), (20, example_input 2 6 200)]))
        30 (example_input 1 7 300)))) = [1, 2, 3]
   \<and> map_of (workoutLogs (snd (createWorkoutLog
          (snd (create_calls MemStorage_new
             [(10, example_input 1 5 100), (20, example_input 2 6 200)]))
          30 (example_input 1 7 300)))) 1
        = map_of (workoutLogs (snd (create_calls MemStorage_new
             [(10, example_input 1 5 100), (20, example_input 2 6 200)]))) 1
   \<and> map_of (workoutLogs (snd (createWorkoutLog
          (snd (create_calls MemStorage_new
             [(10, example_input 1 5 100), (20, example_input 2 6 200)]))
          30 (example_input 1 7 300)))) 2
        = map_of (workoutLogs (snd (create_calls MemStorage_new
             [(10, example_input 1 5 100), (20, example_input 2 6 200)]))) 2"
proof -
  let ?calls = "[(10, example_input 1 5 100), (20, example_input 2 6 200)]"
  let ?s = "snd (create_calls MemStorage_new ?calls)"
  let ?c = "createWorkoutLog ?s 30 (example_input 1 7 300)"
  have keys: "map fst (workoutLogs ?s) = [1, 2]" by code_simp
  have keys': "map fst (workoutLogs (snd ?c)) = [1, 2, 3]" by code_simp
  have h1: "create_calls MemStorage_new ?calls = (fst (create_calls MemStorage_new ?calls), ?s)"
    by simp
  have h2: "?c = (fst ?c, snd ?c)" by simp
  have "fst ` set (workoutLogs ?s) = set (map fst (workoutLogs ?s))" by simp
  also have "\<dots> = {1, 2}" by (simp only: keys) auto
  finally have dom: "fst ` set (workoutLogs ?s) = {1, 2}" .
  from createWorkoutLog_frame[OF h1 h2]
  have "\<forall>k\<in>fst ` set (workoutLogs ?s). map_of (workoutLogs (snd ?c)) k = map_of (workoutLogs ?s) k"
    by blast
  then have fr: "\<forall>k\<in>{1, 2}. map_of (workoutLogs (snd ?c)) k = map_of (workoutLogs ?s) k"
    by (simp only: dom)
  from fr have fr1: "map_of (workoutLogs (snd ?c)) 1 = map_of (workoutLogs ?s) 1" by blast
  from fr have fr2: "map_of (workoutLogs (snd ?c)) 2 = map_of (workoutLogs ?s) 2" by blast
  from keys keys' fr1 fr2 show ?thesis by blast
qed


section \<open>Repeated statistics\<close>

text \<open>
  \<^verbatim>\<open>getWorkoutStats\<close> writes nothing, so a second call sees the same store; what it
  reads besides the store is the clock. The two calls below differ in their clock
  readings only.
\<close>





section \<open>The routes\<close>

subsection \<open>Reading an integer from a string\<close>

lemma isRadixDigit_10_not_space: "isRadixDigit 10 c \<Longrightarrow> \<not> isWhiteSpace c"
  by (auto simp: isRadixDigit_def isWhiteSpace_def digitValue_def Let_def
      split: option.splits if_splits)

lemma isRadixDigit_10_not_sign:
  "isRadixDigit 10 c \<Longrightarrow> c \<noteq> CHR ''+'' \<and> c \<noteq> CHR ''-''"
  by (auto simp: isRadixDigit_def digitValue_def Let_def split: option.splits if_splits)

lemma takeWhile_digits:
  "\<forall>c\<in>set ds. P c \<Longrightarrow> rest = [] \<or> \<not> P (hd rest) \<Longrightarrow> takeWhile P (ds @ rest) = ds"
  by (cases rest) simp_all

text \<open>A string that starts with decimal digits, and not with the prefix of a
  hexadecimal numeral, is read as the number these digits denote.\<close>

lemma parseInt_digits:
  assumes "ds \<noteq> []" and "\<forall>c\<in>set ds. isRadixDigit 10 c"
    and "rest = [] \<or> \<not> isRadixDigit 10 (hd rest)"
    and "take 2 (ds @ rest) \<noteq> ''0x''" and "take 2 (ds @ rest) \<noteq> ''0X''"
  shows "parseInt (ds @ rest) = Some (int (mathInt 10 ds))"
proof -
  obtain d ds' where ds: "ds = d # ds'" using assms(1) by (cases ds) auto
  have d: "isRadixDigit 10 d" using assms(2) ds by simp
  have drop: "dropWhile isWhiteSpace (ds @ rest) = ds @ rest"
    using isRadixDigit_10_not_space[OF d] by (simp add: ds)
  have sign: "hd (ds @ rest) \<noteq> CHR ''+''" "hd (ds @ rest) \<noteq> CHR ''-''"
    using isRadixDigit_10_not_sign[OF d] by (simp_all add: ds)
  have tw: "takeWhile (isRadixDigit 10) (ds @ rest) = ds"
    by (rule takeWhile_digits[OF assms(2,3)])
  show ?thesis
    unfolding parseInt_def drop Let_def
    using sign assms(1,4,5) by (simp add: tw)
qed

text \<open>A string whose first character is neither white space, a sign nor a decimal digit
  is not read as a number.\<close>

lemma parseInt_no_digit:
  assumes "\<not> isWhiteSpace c" and "c \<noteq> CHR ''+''" and "c \<noteq> CHR ''-''"
    and "\<not> isRadixDigit 10 c"
  shows "parseInt (c # rest) = None"
proof -
  have c0: "c \<noteq> CHR ''0''"
    using assms(4) by (auto simp: isRadixDigit_def digitValue_def)
  show ?thesis
    unfolding parseInt_def Let_def
    using assms c0 by simp
qed

subsection \<open>The statistics route\<close>

text \<open>
  Claim C7, as amended. An authenticated \<^verbatim>\<open>GET /api/stats\<close> request always gets a
  status 200 with the statistics of a positive number of days, never an error. That
  number is 30 when no \<^verbatim>\<open>days\<close> parameter is supplied, when \<^verbatim>\<open>parseInt\<close> reads no
  integer at the start of the parameter, as for the empty string and for every string
  whose first character is neither white space, a sign nor a decimal digit, and when the
  integer read is not positive. Otherwise it is the integer that \<^verbatim>\<open>parseInt\<close> reads at
  the start of the parameter: for a parameter that starts with decimal digits, the
  number these digits denote, whatever follows them.
\<close>

theorem get_api_stats_days:
  fixes query_days :: "string option"
  defines "days \<equiv> (case query_days of
                     None \<Rightarrow> 30
                   | Some q \<Rightarrow> (case parseInt q of
                                 None \<Rightarrow> 30
                               | Some d \<Rightarrow> if d \<le> 0 then 30 else d))"
  shows "get_api_stats s now_end now_start (Some uid) query_days
           = Status200 (getWorkoutStats s now_end now_start uid (Some days))
       \<and> days > 0
       \<and> parseInt [] = None
       \<and> (\<not> isWhiteSpace c \<and> c \<noteq> CHR ''+'' \<and> c \<noteq> CHR ''-'' \<and> \<not> isRadixDigit 10 c
            \<longrightarrow> parseInt (c # rest) = None)
       \<and> (ds \<noteq> [] \<and> (\<forall>c\<in>set ds. isRadixDigit 10 c)
            \<and> (rest = [] \<or> \<not> isRadixDigit 10 (hd rest))
            \<and> take 2 (ds @ rest) \<noteq> ''0x'' \<and> take 2 (ds @ rest) \<noteq> ''0X''
            \<longrightarrow> parseInt (ds @ rest) = Some (int (mathInt 10 ds)))"
proof -
  have empty: "parseInt [] = None" by (simp add: parseInt_def)
  have a: "get_api_stats s now_end now_start (Some uid) query_days
           = Status200 (getWorkoutStats s now_end now_start uid (Some days))"
    unfolding get_api_stats_def days_def
    by (cases query_days) (simp_all add: empty)
  have b: "days > 0"
    unfolding days_def by (simp split: option.splits)
  show ?thesis
    using a b empty parseInt_no_digit parseInt_digits by blast
qed

theorem get_api_stats_days_witness:
  "get_api_stats oneLog msPerDay msPerDay (Some 1) (Some ''12abc'')
     = Status200 (getWorkoutStats oneLog msPerDay msPerDay 1 (Some 12))
   \<and> get_api_stats oneLog msPerDay msPerDay (Some 1) (Some ''abc'')
     = Status200 (getWorkoutStats oneLog msPerDay msPerDay 1 (Some 30))
   \<and> get_api_stats oneLog msPerDay msPerDay (Some 1) (Some ''-5'')
     = Status200 (getWorkoutStats oneLog msPerDay msPerDay 1 (Some 30))
   \<and> get_api_stats oneLog msPerDay msPerDay (Some 1) None
     = Status200 (getWorkoutStats oneLog msPerDay msPerDay 1 (Some 30))
   \<and> parseInt (''12'' @ ''abc'') = Some 12
   \<and> parseInt (CHR ''a'' # ''bc'') = None"
proof -
  have p1: "parseInt ''12abc'' = Some 12" by code_simp
  have p2: "parseInt ''abc'' = None" by code_simp
  have p3: "parseInt ''-5'' = Some (- 5)" by code_simp
  from get_api_stats_days[of oneLog msPerDay msPerDay 1 "Some ''12abc''"]
  have a: "get_api_stats oneLog msPerDay msPerDay (Some 1) (Some ''12abc'')
     = Status200 (getWorkoutStats oneLog msPerDay msPerDay 1 (Some 12))"
    by (simp add: p1)
  from get_api_stats_days[of oneLog msPerDay msPerDay 1 "Some ''abc''"]
  have b: "get_api_stats oneLog msPerDay msPerDay (Some 1) (Some ''abc'')
     = Status200 (getWorkoutStats oneLog msPerDay msPerDay 1 (Some 30))"
    by (simp add: p2)
  from get_api_stats_days[of oneLog msPerDay msPerDay 1 "Some ''-5''"]
  have c: "get_api_stats oneLog msPerDay msPerDay (Some 1) (Some ''-5'')
     = Status200 (getWorkoutStats oneLog msPerDay msPerDay 1 (Some 30))"
    by (simp add: p3)
  from get_api_stats_days[of oneLog msPerDay msPerDay 1 None]
  have d: "get_api_stats oneLog msPerDay msPerDay (Some 1) None
     = Status200 (getWorkoutStats oneLog msPerDay msPerDay 1 (Some 30))"
    by simp
  have h1: "\<not> isWhiteSpace CHR ''a'' \<and> CHR ''a'' \<noteq> CHR ''+'' \<and> CHR ''a'' \<noteq> CHR ''-''
      \<and> \<not> isRadixDigit 10 CHR ''a''"
    by code_simp
  have h2: "''12'' \<noteq> [] \<and> (\<forall>c\<in>set ''12''. isRadixDigit 10 c)
      \<and> (''abc'' = [] \<or> \<not> isRadixDigit 10 (hd ''abc''))
      \<and> take 2 (''12'' @ ''abc'') \<noteq> ''0x'' \<and> take 2 (''12'' @ ''abc'') \<noteq> ''0X''"
    by code_simp
  have v: "mathInt 10 ''12'' = 12" by code_simp
  note inst = get_api_stats_days[of oneLog msPerDay msPerDay 1 None "CHR ''a''" "''bc''"]
  from inst h1 have e: "parseInt (CHR ''a'' # ''bc'') = None" by blast
  note inst2 = get_api_stats_days[of oneLog msPerDay msPerDay 1 None _ "''abc''" "''12''"]
  from inst2 h2 have "parseInt (''12'' @ ''abc'') = Some (int (mathInt 10 ''12''))" by blast
  then have f: "parseInt (''12'' @ ''abc'') = Some 12" by (simp only: v) simp
  from a b c d e f show ?thesis by blast
qed

text \<open>
  The claim as it was stated fails for a parameter that is not a number but starts with
  digits: \<^verbatim>\<open>days=12abc\<close> is not replaced by 30, the statistics are those of 12 days. On
  the store with one log they differ from those of 30 days in the completion
  percentage.
\<close>

theorem get_api_stats_days_counterexample:
  "get_api_stats oneLog msPerDay msPerDay (Some 1) (Some ''12abc'')
     = Status200 (getWorkoutStats oneLog msPerDay msPerDay 1 (Some 12))
   \<and> get_api_stats oneLog msPerDay msPerDay (Some 1) (Some ''12abc'')
     \<noteq> Status200 (getWorkoutStats oneLog msPerDay msPerDay 1 (Some 30))
   \<and> completionPercentage (getWorkoutStats oneLog msPerDay msPerDay 1 (Some 12)) = 100 / 3
   \<and> completionPercentage (getWorkoutStats oneLog msPerDay msPerDay 1 (Some 30)) = 25 / 3"
proof -
  have a: "get_api_stats oneLog msPerDay msPerDay (Some 1) (Some ''12abc'')
     = Status200 (getWorkoutStats oneLog msPerDay msPerDay 1 (Some 12))"
    by code_simp
  have c: "completionPercentage (getWorkoutStats oneLog msPerDay msPerDay 1 (Some 12)) = 100 / 3"
    by code_simp
  have d: "completionPercentage (getWorkoutStats oneLog msPerDay msPerDay 1 (Some 30)) = 25 / 3"
    by code_simp
  have "getWorkoutStats oneLog msPerDay msPerDay 1 (Some 12)
      \<noteq> getWorkoutStats oneLog msPerDay msPerDay 1 (Some 30)"
  proof
    assume "getWorkoutStats oneLog msPerDay msPerDay 1 (Some 12)
      = getWorkoutStats oneLog msPerDay msPerDay 1 (Some 30)"
    then have "(100 / 3 :: rat) = 25 / 3" using c d by simp
    then show False by simp
  qed
  then have b: "get_api_stats oneLog msPerDay msPerDay (Some 1) (Some ''12abc'')
     \<noteq> Status200 (getWorkoutStats oneLog msPerDay msPerDay 1 (Some 30))"
    unfolding a by simp
  from a b c d show ?thesis by blast
qed

subsection \<open>The route that creates a log\<close>

text \<open>
  Claim C8 does not hold of the code. The insert schema checks the types of the fields
  and nothing else, so a negative number passes: the request below has a negative
  \<open>waterIntake\<close>, is answered with status 201, and the log is stored with that value.
\<close>

theorem post_api_logs_negative:
  "post_api_logs MemStorage_new 1000 (Some 1)
     [''completedExercises'' \<mapsto> JNum 3, ''waterIntake'' \<mapsto> JNum (- 5), ''duration'' \<mapsto> JNum 600]
   = (Status201
        \<lparr>log_id = 1, userId = 1, workoutId = None, date = 1000, completedExercises = 3,
         waterIntake = - 5, duration = 600, log_notes = None\<rparr>,
      \<lparr>workoutLogs =
         [(1, \<lparr>log_id = 1, userId = 1, workoutId = None, date = 1000, completedExercises = 3,
               waterIntake = - 5, duration = 600, log_notes = None\<rparr>)],
       currentWorkoutLogId = 2\<rparr>)"
  by code_simp


end
